theory Spec2Isabelle
  imports Main "HOL-Library.AList" "HOL-Library.Extended_Nat"
begin

section \<open>The Emitter class of \<^verbatim>\<open>src/Emitter.js\<close>\<close>

text \<open>
  The class keeps two private fields: \<^verbatim>\<open>#events\<close>, an object used as a dictionary
  from event names to arrays of \<^verbatim>\<open>{ isOnce, listener }\<close> records, and
  \<^verbatim>\<open>#maxListeners\<close>, a number. Every method is modelled as a function that takes the
  emitter and returns what the call produced together with the emitter it leaves behind,
  because a method may have written to \<^verbatim>\<open>#events\<close> before it throws.

  Modelling decisions:
  \<^item> The own properties of \<^verbatim>\<open>#events\<close> are an association list in insertion order.
    \<^verbatim>\<open>#events\<close> is created as \<^verbatim>\<open>{}\<close>, so it inherits from \<^verbatim>\<open>Object.prototype\<close>:
    \<^verbatim>\<open>name in this.#events\<close> and \<^verbatim>\<open>this.#events[name]\<close> look among the own keys
    first and among the members of \<^verbatim>\<open>Object.prototype\<close> next, while
    \<^verbatim>\<open>Object.keys\<close> lists own keys only.
  \<^item> A function reference is a natural number; two references are the same function
    exactly when the numbers are equal.
  \<^item> A string is a list of 8-bit code units (Latin-1).
  \<^item> What a listener does when it is called is given by the environment, see
    \<open>outcome\<close>. A listener does not call back into the emitter that is emitting, and
    a promise it returns settles eventually.
\<close>

subsection \<open>Values, records and errors\<close>

text \<open>
  The JavaScript values that cross the interface. \<open>JInteger\<close> is a number for which
  \<^verbatim>\<open>Number.isInteger\<close> holds, \<open>JInfinity\<close> is \<^verbatim>\<open>Infinity\<close>, and \<open>JOther\<close> stands
  for every other value: \<^verbatim>\<open>null\<close>, booleans, objects, arrays, \<^verbatim>\<open>NaN\<close>,
  \<^verbatim>\<open>-Infinity\<close> and numbers with a fractional part.
\<close>

datatype js_value =
    JUndefined
  | JString string
  | JFunction nat
  | JInteger int
  | JInfinity
  | JOther

text \<open>An element of an event's array: \<^verbatim>\<open>{ isOnce, listener }\<close>.\<close>

record event =
  isOnce :: bool
  listener :: nat

record emitter =
  events :: "(string \<times> event list) list"
  maxListeners :: enat

text \<open>
  \<^verbatim>\<open>new TypeError(msg)\<close> and \<^verbatim>\<open>new Error(msg)\<close> as the source throws them,
  whatever a listener throws (tagged with the listener that threw it), and the
  \<^verbatim>\<open>TypeError\<close> the language raises when a property that is not a function is called
  (tagged with the property; its message depends on the engine), or when a property
  of \<^verbatim>\<open>undefined\<close> is read.
\<close>

datatype error =
    TypeError string
  | Error string
  | Thrown nat
  | NotAFunction string
  | ReadOfUndefined string

subsection \<open>Strings\<close>

text \<open>
  \<^verbatim>\<open>String.prototype.trim\<close> removes white space and line terminators from both ends.
  Below code unit 256 these are TAB, LF, VT, FF, CR, SPACE and NBSP.
\<close>

definition is_whitespace :: "char \<Rightarrow> bool" where
  "is_whitespace c \<longleftrightarrow>
     c \<in> set [CHR 0x09, CHR 0x0A, CHR 0x0B, CHR 0x0C, CHR 0x0D, CHR 0x20, CHR 0xA0]"

definition trim :: "string \<Rightarrow> string" where
  "trim s = rev (dropWhile is_whitespace (rev (dropWhile is_whitespace s)))"

text \<open>
  The guard every method starts with:
  \<^verbatim>\<open>typeof eventName !== 'string' || !eventName.trim()\<close>.
\<close>

fun invalid_eventName :: "js_value \<Rightarrow> bool" where
  "invalid_eventName (JString s) = (trim s = [])"
| "invalid_eventName _ = True"

text \<open>\<^verbatim>\<open>typeof listener !== 'function'\<close>\<close>

fun not_function :: "js_value \<Rightarrow> bool" where
  "not_function (JFunction f) = False"
| "not_function _ = True"

subsection \<open>The object \<^verbatim>\<open>#events\<close>\<close>

text \<open>
  What \<^verbatim>\<open>this.#events[name]\<close> can be: an array of records (an own property, the only
  kind the class ever stores), a built-in function, of which only its \<^verbatim>\<open>length\<close>
  matters here, or the object \<^verbatim>\<open>Object.prototype\<close> itself.
\<close>

datatype member =
    Array "event list"
  | Function_of_length nat
  | Object_prototype

text \<open>
  The properties of \<^verbatim>\<open>Object.prototype\<close> (ECMAScript, ``Properties of the Object
  Prototype Object'' and its Annex B), each with the value a read through an object that
  inherits it yields; a function is given by its \<^verbatim>\<open>length\<close>. The accessor
  \<^verbatim>\<open>__proto__\<close> yields the prototype of the object it is read through, which for
  \<^verbatim>\<open>#events\<close> is \<^verbatim>\<open>Object.prototype\<close>.
\<close>

definition Object_prototype_members :: "(string \<times> member) list" where
  "Object_prototype_members =
     [(''constructor'', Function_of_length 1),
      (''__defineGetter__'', Function_of_length 2),
      (''__defineSetter__'', Function_of_length 2),
      (''hasOwnProperty'', Function_of_length 1),
      (''__lookupGetter__'', Function_of_length 1),
      (''__lookupSetter__'', Function_of_length 1),
      (''isPrototypeOf'', Function_of_length 1),
      (''propertyIsEnumerable'', Function_of_length 1),
      (''toString'', Function_of_length 0),
      (''valueOf'', Function_of_length 0),
      (''__proto__'', Object_prototype),
      (''toLocaleString'', Function_of_length 0)]"

text \<open>\<^verbatim>\<open>this.#events[eventName]\<close>; \<open>None\<close> is \<^verbatim>\<open>undefined\<close>.\<close>

definition events_get :: "emitter \<Rightarrow> string \<Rightarrow> member option" where
  "events_get e eventName =
     (case map_of (events e) eventName of
        Some arr \<Rightarrow> Some (Array arr)
      | None \<Rightarrow> map_of Object_prototype_members eventName)"

text \<open>\<^verbatim>\<open>eventName in this.#events\<close>\<close>

definition has_event :: "emitter \<Rightarrow> string \<Rightarrow> bool" where
  "has_event e eventName \<longleftrightarrow> events_get e eventName \<noteq> None"

text \<open>
  The \<^verbatim>\<open>length\<close> property of a member. \<^verbatim>\<open>Object.prototype\<close> has none, the read
  gives \<^verbatim>\<open>undefined\<close>.
\<close>

fun member_length :: "member \<Rightarrow> js_value" where
  "member_length (Array arr) = JInteger (int (length arr))"
| "member_length (Function_of_length n) = JInteger (int n)"
| "member_length Object_prototype = JUndefined"

text \<open>
  \<^verbatim>\<open>Object.keys\<close>: the own keys that are array indices (canonical decimal numerals up
  to \<open>2\<^sup>3\<^sup>2 - 2\<close>) in ascending numeric order, then the other own keys in the order
  of their creation.
\<close>

definition is_digit :: "char \<Rightarrow> bool" where
  "is_digit c \<longleftrightarrow> c \<in> set ''0123456789''"

definition digits_value :: "string \<Rightarrow> nat" where
  "digits_value s = foldl (\<lambda>n c. 10 * n + (of_char c - 48)) 0 s"

definition is_array_index :: "string \<Rightarrow> bool" where
  "is_array_index s \<longleftrightarrow>
     s \<noteq> [] \<and> list_all is_digit s \<and> (s = ''0'' \<or> hd s \<noteq> CHR ''0'')
     \<and> digits_value s \<le> 4294967294"

definition Object_keys :: "(string \<times> 'a) list \<Rightarrow> string list" where
  "Object_keys props =
     sort_key digits_value (filter is_array_index (map fst props))
       @ filter (\<lambda>k. \<not> is_array_index k) (map fst props)"

subsection \<open>The private methods\<close>

text \<open>
  \<^verbatim>\<open>#addEventListener (eventName, listener, { isPrepend = false, isOnce = false } = {})\<close>.
  The array of a new event name is created before the capacity test, and the test's
  \<^verbatim>\<open>throw\<close> does not undo that. A name that \<^verbatim>\<open>Object.prototype\<close> has counts as
  present, so no array is created for it; the capacity test then reads the \<^verbatim>\<open>length\<close>
  of the inherited member (\<^verbatim>\<open>undefined + 1\<close> is \<^verbatim>\<open>NaN\<close>, and \<^verbatim>\<open>NaN > m\<close> is false),
  and the member has neither \<^verbatim>\<open>push\<close> nor \<^verbatim>\<open>unshift\<close>. The last case of the
  inner distinction, \<^verbatim>\<open>undefined\<close>, is not reached: the name is present by then.
\<close>

definition addEventListener ::
  "emitter \<Rightarrow> js_value \<Rightarrow> js_value \<Rightarrow> bool \<Rightarrow> bool \<Rightarrow> (error + unit) \<times> emitter" where
  "addEventListener e eventName listener' prepend once' =
     (if invalid_eventName eventName then (Inl (TypeError ''Invalid eventName''), e)
      else if not_function listener' then (Inl (TypeError ''Invalid listener''), e)
      else
        (case (eventName, listener') of
           (JString s, JFunction f) \<Rightarrow>
             (let name = trim s;
                  e1 = (if \<not> has_event e name
                        then e\<lparr>events := AList.update name [] (events e)\<rparr> else e)
              in case events_get e1 name of
                   Some (Array arr) \<Rightarrow>
                     if enat (length arr + 1) > maxListeners e1
                     then (Inl (Error ''Memory leak detected''), e1)
                     else if prepend
                     then (Inr (), e1\<lparr>events :=
                             AList.update name (\<lparr>isOnce = once', listener = f\<rparr> # arr) (events e1)\<rparr>)
                     else (Inr (), e1\<lparr>events :=
                             AList.update name (arr @ [\<lparr>isOnce = once', listener = f\<rparr>]) (events e1)\<rparr>)
                 | Some (Function_of_length n) \<Rightarrow>
                     if enat (n + 1) > maxListeners e1
                     then (Inl (Error ''Memory leak detected''), e1)
                     else if prepend then (Inl (NotAFunction ''unshift''), e1)
                     else (Inl (NotAFunction ''push''), e1)
                 | Some Object_prototype \<Rightarrow>
                     if prepend then (Inl (NotAFunction ''unshift''), e1)
                     else (Inl (NotAFunction ''push''), e1)
                 | None \<Rightarrow> (Inl (ReadOfUndefined ''length''), e1))
         | _ \<Rightarrow> (Inl (TypeError ''Invalid eventName''), e)))"

text \<open>
  \<^verbatim>\<open>#removeEventListener (eventName, index)\<close>: \<^verbatim>\<open>splice(index, 1)\<close>, then the key is
  deleted when the array has become empty. Both callers pass the name of an own key:
  \<open>removeListener\<close> after \<^verbatim>\<open>findIndex\<close> has run on its array, the clean-up of
  \<open>emit\<close> from inside \<^verbatim>\<open>forEach\<close> on its array. For any other name the model leaves
  the emitter alone.
\<close>

definition removeEventListener :: "emitter \<Rightarrow> string \<Rightarrow> nat \<Rightarrow> emitter" where
  "removeEventListener e eventName index =
     (case map_of (events e) eventName of
        Some arr \<Rightarrow>
          (let spliced = take index arr @ drop (Suc index) arr
           in if length spliced = 0
              then e\<lparr>events := AList.delete eventName (events e)\<rparr>
              else e\<lparr>events := AList.update eventName spliced (events e)\<rparr>)
      | None \<Rightarrow> e)"

subsection \<open>Construction and capacity\<close>

text \<open>
  \<^verbatim>\<open>set maxListeners (maxListeners = 10)\<close>. The default stands in for
  \<^verbatim>\<open>undefined\<close> only. \<open>capacity_of\<close> is the number the argument denotes once it has
  passed the first guard. The second guard runs over \<^verbatim>\<open>Object.keys\<close>, that is over
  own keys, and each of them holds an array.
\<close>

fun invalid_maxListeners :: "js_value \<Rightarrow> bool" where
  "invalid_maxListeners JUndefined = False"
| "invalid_maxListeners (JInteger i) = (i < 0)"
| "invalid_maxListeners JInfinity = False"
| "invalid_maxListeners _ = True"

fun capacity_of :: "js_value \<Rightarrow> enat" where
  "capacity_of (JInteger i) = enat (nat i)"
| "capacity_of JInfinity = \<infinity>"
| "capacity_of _ = enat 10"

definition eventNames :: "emitter \<Rightarrow> (error + string list) \<times> emitter" where
  "eventNames e = (Inr (Object_keys (events e)), e)"

definition get_maxListeners :: "emitter \<Rightarrow> (error + enat) \<times> emitter" where
  "get_maxListeners e = (Inr (maxListeners e), e)"

definition set_maxListeners :: "emitter \<Rightarrow> js_value \<Rightarrow> (error + unit) \<times> emitter" where
  "set_maxListeners e v =
     (if invalid_maxListeners v then (Inl (TypeError ''Invalid maxListeners''), e)
      else if list_ex (\<lambda>eventName.
                  case map_of (events e) eventName of
                    Some arr \<Rightarrow> capacity_of v < enat (length arr)
                  | None \<Rightarrow> False)
                (Object_keys (events e))
      then (Inl (Error ''Memory leak detected''), e)
      else (Inr (), e\<lparr>maxListeners := capacity_of v\<rparr>))"

text \<open>
  \<^verbatim>\<open>constructor (maxListeners)\<close>: \<^verbatim>\<open>#events\<close> becomes \<^verbatim>\<open>{}\<close> and the argument goes
  through the setter. \<^verbatim>\<open>#maxListeners\<close> has no value before the setter stores one, and
  the setter does not read it; the \<open>0\<close> below is never observed. When the setter throws no
  emitter comes into being.
\<close>

definition new_Emitter :: "js_value \<Rightarrow> error + emitter" where
  "new_Emitter v =
     (case set_maxListeners \<lparr>events = [], maxListeners = 0\<rparr> v of
        (Inl err, _) \<Rightarrow> Inl err
      | (Inr _, e) \<Rightarrow> Inr e)"

subsection \<open>Registration\<close>

definition addListener :: "emitter \<Rightarrow> js_value \<Rightarrow> js_value \<Rightarrow> (error + unit) \<times> emitter" where
  "addListener e eventName listener' = addEventListener e eventName listener' False False"

definition on :: "emitter \<Rightarrow> js_value \<Rightarrow> js_value \<Rightarrow> (error + unit) \<times> emitter" where
  "on e eventName listener' = addListener e eventName listener'"

definition once :: "emitter \<Rightarrow> js_value \<Rightarrow> js_value \<Rightarrow> (error + unit) \<times> emitter" where
  "once e eventName listener' = addEventListener e eventName listener' False True"

definition prependListener ::
  "emitter \<Rightarrow> js_value \<Rightarrow> js_value \<Rightarrow> (error + unit) \<times> emitter" where
  "prependListener e eventName listener' = addEventListener e eventName listener' True False"

definition prependOnceListener ::
  "emitter \<Rightarrow> js_value \<Rightarrow> js_value \<Rightarrow> (error + unit) \<times> emitter" where
  "prependOnceListener e eventName listener' = addEventListener e eventName listener' True True"

subsection \<open>Queries\<close>

text \<open>
  \<^verbatim>\<open>listenerCount (eventName, listener)\<close>: the second argument may be left out. A
  function is truthy, so \<^verbatim>\<open>if (listener)\<close> separates the two remaining cases. The
  result is what the \<^verbatim>\<open>length\<close> read gives, a number or, for \<^verbatim>\<open>Object.prototype\<close>,
  \<^verbatim>\<open>undefined\<close>. Only an array has \<^verbatim>\<open>filter\<close>.
\<close>

definition listenerCount ::
  "emitter \<Rightarrow> js_value \<Rightarrow> js_value \<Rightarrow> (error + js_value) \<times> emitter" where
  "listenerCount e eventName listener' =
     (if invalid_eventName eventName then (Inl (TypeError ''Invalid eventName''), e)
      else if listener' \<noteq> JUndefined \<and> not_function listener'
      then (Inl (TypeError ''Invalid listener''), e)
      else
        (case eventName of
           JString s \<Rightarrow>
             (case events_get e s of
                None \<Rightarrow> (Inr (JInteger 0), e)
              | Some m \<Rightarrow>
                  (case listener' of
                     JFunction f \<Rightarrow>
                       (case m of
                          Array arr \<Rightarrow>
                            (Inr (JInteger (int (length (filter (\<lambda>ev. listener ev = f) arr)))), e)
                        | _ \<Rightarrow> (Inl (NotAFunction ''filter''), e))
                   | _ \<Rightarrow> (Inr (member_length m), e)))
         | _ \<Rightarrow> (Inl (TypeError ''Invalid eventName''), e)))"

definition listeners :: "emitter \<Rightarrow> js_value \<Rightarrow> (error + nat list) \<times> emitter" where
  "listeners e eventName =
     (if invalid_eventName eventName then (Inl (TypeError ''Invalid eventName''), e)
      else
        (case eventName of
           JString s \<Rightarrow>
             (case events_get e s of
                None \<Rightarrow> (Inr [], e)
              | Some (Array arr) \<Rightarrow>
                  (Inr (map listener (filter (\<lambda>ev. \<not> isOnce ev) arr)), e)
              | Some _ \<Rightarrow> (Inl (NotAFunction ''filter''), e))
         | _ \<Rightarrow> (Inl (TypeError ''Invalid eventName''), e)))"

definition rawListeners :: "emitter \<Rightarrow> js_value \<Rightarrow> (error + nat list) \<times> emitter" where
  "rawListeners e eventName =
     (if invalid_eventName eventName then (Inl (TypeError ''Invalid eventName''), e)
      else
        (case eventName of
           JString s \<Rightarrow>
             (case events_get e s of
                None \<Rightarrow> (Inr [], e)
              | Some (Array arr) \<Rightarrow> (Inr (map listener arr), e)
              | Some _ \<Rightarrow> (Inl (NotAFunction ''map''), e))
         | _ \<Rightarrow> (Inl (TypeError ''Invalid eventName''), e)))"

subsection \<open>Removal\<close>

text \<open>\<^verbatim>\<open>Array.prototype.findIndex\<close>: the first index whose element passes, or \<open>-1\<close>.\<close>

fun findIndex :: "('a \<Rightarrow> bool) \<Rightarrow> 'a list \<Rightarrow> int" where
  "findIndex P [] = - 1"
| "findIndex P (x # xs) =
     (if P x then 0 else (let i = findIndex P xs in if i > - 1 then i + 1 else - 1))"

definition removeListener :: "emitter \<Rightarrow> js_value \<Rightarrow> js_value \<Rightarrow> (error + unit) \<times> emitter" where
  "removeListener e eventName listener' =
     (if invalid_eventName eventName then (Inl (TypeError ''Invalid eventName''), e)
      else if not_function listener' then (Inl (TypeError ''Invalid listener''), e)
      else
        (case (eventName, listener') of
           (JString s, JFunction f) \<Rightarrow>
             (case events_get e s of
                None \<Rightarrow> (Inr (), e)
              | Some (Array arr) \<Rightarrow>
                  (let index = findIndex (\<lambda>ev. listener ev = f) arr
                   in if index > - 1 then (Inr (), removeEventListener e s (nat index))
                      else (Inr (), e))
              | Some _ \<Rightarrow> (Inl (NotAFunction ''findIndex''), e))
         | _ \<Rightarrow> (Inl (TypeError ''Invalid eventName''), e)))"

definition off :: "emitter \<Rightarrow> js_value \<Rightarrow> js_value \<Rightarrow> (error + unit) \<times> emitter" where
  "off e eventName listener' = removeListener e eventName listener'"

text \<open>
  \<^verbatim>\<open>removeAllListeners (eventName)\<close>: past the guard the argument is \<^verbatim>\<open>undefined\<close> or a
  string with something other than white space in it, and \<^verbatim>\<open>!eventName\<close> holds for
  \<^verbatim>\<open>undefined\<close> alone. \<^verbatim>\<open>delete\<close> removes an own property and does nothing for an
  inherited one.
\<close>

definition removeAllListeners :: "emitter \<Rightarrow> js_value \<Rightarrow> (error + unit) \<times> emitter" where
  "removeAllListeners e eventName =
     (if eventName \<noteq> JUndefined \<and> invalid_eventName eventName
      then (Inl (TypeError ''Invalid eventName''), e)
      else
        (case eventName of
           JString s \<Rightarrow>
             if has_event e s then (Inr (), e\<lparr>events := AList.delete s (events e)\<rparr>)
             else (Inr (), e)
         | _ \<Rightarrow> (Inr (), e\<lparr>events := []\<rparr>)))"

subsection \<open>Emission\<close>

text \<open>
  What one call \<^verbatim>\<open>event.listener(...args)\<close> does: it returns a value or a promise that
  is fulfilled, returns a promise that is rejected, or throws before it returns.
\<close>

datatype outcome = Fulfils | Rejects | Throws

text \<open>
  \<^verbatim>\<open>this.#events[eventName].map(event => event.listener(...args))\<close>. The environment
  \<open>beh\<close> tells the outcome of the call made at a given index to a given listener. The
  calls are made in array order; an exception thrown by a call leaves \<^verbatim>\<open>map\<close> at once,
  so the listeners behind it are not called. The result is the list of calls made, each
  with the arguments it received, and the listener that threw, if one did.
\<close>

fun map_listeners ::
  "(nat \<Rightarrow> nat \<Rightarrow> js_value list \<Rightarrow> outcome) \<Rightarrow> nat \<Rightarrow> event list \<Rightarrow> js_value list
     \<Rightarrow> (nat \<times> js_value list) list \<times> nat option" where
  "map_listeners beh index [] args = ([], None)"
| "map_listeners beh index (ev # evs) args =
     (case beh index (listener ev) args of
        Throws \<Rightarrow> ([(listener ev, args)], Some (listener ev))
      | _ \<Rightarrow> (case map_listeners beh (Suc index) evs args of
                (calls, thrown) \<Rightarrow> ((listener ev, args) # calls, thrown)))"

text \<open>
  \<^verbatim>\<open>this.#events[eventName].forEach((event, index) => { if (event.isOnce)
  this.#removeEventListener(eventName, index) })\<close>, run on the array of an own key.
  \<^verbatim>\<open>forEach\<close> fixes the range of indices when it starts and visits an index only if
  the array still has it; the array is the one \<^verbatim>\<open>splice\<close> shortens meanwhile. Once
  the array is empty and its key deleted no index is left to visit.
\<close>

fun forEach_isOnce :: "string \<Rightarrow> nat list \<Rightarrow> emitter \<Rightarrow> emitter" where
  "forEach_isOnce eventName [] e = e"
| "forEach_isOnce eventName (index # rest) e =
     (case map_of (events e) eventName of
        Some arr \<Rightarrow>
          if index < length arr \<and> isOnce (arr ! index)
          then forEach_isOnce eventName rest (removeEventListener e eventName index)
          else forEach_isOnce eventName rest e
      | None \<Rightarrow> e)"

text \<open>
  \<^verbatim>\<open>async emit (eventName, ...args)\<close>. \<open>Inl\<close> is a rejected promise, \<open>Inr\<close> a
  fulfilled one. \<^verbatim>\<open>Promise.allSettled\<close> waits for every promise that \<^verbatim>\<open>map\<close> returned and
  ignores how each one settled; an exception out of \<^verbatim>\<open>map\<close> itself rejects the promise
  of \<^verbatim>\<open>emit\<close> before the one-shot records are looked at. Only an array has
  \<^verbatim>\<open>map\<close>.
\<close>

definition emit ::
  "(nat \<Rightarrow> nat \<Rightarrow> js_value list \<Rightarrow> outcome) \<Rightarrow> emitter \<Rightarrow> js_value \<Rightarrow> js_value list
     \<Rightarrow> (error + bool) \<times> (nat \<times> js_value list) list \<times> emitter" where
  "emit beh e eventName args =
     (if invalid_eventName eventName then (Inl (TypeError ''Invalid eventName''), [], e)
      else
        (case eventName of
           JString s \<Rightarrow>
             (case events_get e s of
                None \<Rightarrow> (Inr False, [], e)
              | Some (Array arr) \<Rightarrow>
                  (case map_listeners beh 0 arr args of
                     (calls, Some f) \<Rightarrow> (Inl (Thrown f), calls, e)
                   | (calls, None) \<Rightarrow>
                       (Inr True, calls, forEach_isOnce s [0..<length arr] e))
              | Some _ \<Rightarrow> (Inl (NotAFunction ''map''), [], e))
         | _ \<Rightarrow> (Inl (TypeError ''Invalid eventName''), [], e)))"

subsection \<open>Vocabulary of the properties\<close>

text \<open>The five public methods that register a listener.\<close>

definition registration_variants ::
  "(emitter \<Rightarrow> js_value \<Rightarrow> js_value \<Rightarrow> (error + unit) \<times> emitter) list" where
  "registration_variants = [addListener, on, prependListener, once, prependOnceListener]"

text \<open>
  The specification's description of a capacity, in its own words: a non-negative
  integer or the unbounded sentinel.
\<close>

definition is_capacity :: "js_value \<Rightarrow> bool" where
  "is_capacity v \<longleftrightarrow> (case v of JInteger i \<Rightarrow> 0 \<le> i | JInfinity \<Rightarrow> True | _ \<Rightarrow> False)"

text \<open>An event name that \<^verbatim>\<open>Object.prototype\<close> does not have.\<close>

definition ordinary :: "string \<Rightarrow> bool" where
  "ordinary name \<longleftrightarrow> map_of Object_prototype_members name = None"

text \<open>The records registered under an own key; none for any other name.\<close>

definition own_array :: "emitter \<Rightarrow> string \<Rightarrow> event list" where
  "own_array e name = (case map_of (events e) name of Some arr \<Rightarrow> arr | None \<Rightarrow> [])"

text \<open>The specification's invariant: no own key of the event map has an empty array.\<close>

definition keys_nonempty :: "emitter \<Rightarrow> bool" where
  "keys_nonempty e \<longleftrightarrow> (\<forall>k arr. map_of (events e) k = Some arr \<longrightarrow> arr \<noteq> [])"

section \<open>Properties\<close>

lemmas ev_defs = trim_def is_whitespace_def has_event_def events_get_def
  Object_prototype_members_def Let_def

lemmas keys_defs = Object_keys_def is_array_index_def is_digit_def

subsection \<open>Trimming\<close>

lemma last_dropWhile_nonempty: "dropWhile P xs \<noteq> [] \<Longrightarrow> last (dropWhile P xs) = last xs"
  by (metis last_appendR takeWhile_dropWhile_id)

lemma dropWhile_rev_dropWhile_rev:
  assumes "ys = [] \<or> \<not> P (hd ys)"
  shows "dropWhile P (rev (dropWhile P (rev ys))) = rev (dropWhile P (rev ys))"
proof (cases "dropWhile P (rev ys) = []")
  case True
  show ?thesis unfolding True by simp
next
  case False
  then have ne: "ys \<noteq> []" by auto
  have "last (dropWhile P (rev ys)) = last (rev ys)"
    using False by (rule last_dropWhile_nonempty)
  also have "\<dots> = hd ys" using ne by (simp add: last_rev)
  finally have "hd (rev (dropWhile P (rev ys))) = hd ys"
    using False by (simp add: hd_rev)
  with assms ne have "\<not> P (hd (rev (dropWhile P (rev ys))))" by simp
  then show ?thesis by (simp add: dropWhile_eq_self_iff)
qed

lemma trim_trim: "trim (trim s) = trim s"
proof -
  let ?ys = "dropWhile is_whitespace s"
  have "?ys = [] \<or> \<not> is_whitespace (hd ?ys)"
    by (metis hd_dropWhile)
  then have "dropWhile is_whitespace (rev (dropWhile is_whitespace (rev ?ys)))
      = rev (dropWhile is_whitespace (rev ?ys))"
    by (rule dropWhile_rev_dropWhile_rev)
  then show ?thesis by (simp add: trim_def)
qed

subsection \<open>Reading the event map\<close>

lemma events_get_ordinary:
  "ordinary k \<Longrightarrow> events_get e k = map_option Array (map_of (events e) k)"
  by (simp add: events_get_def ordinary_def split: option.splits)

lemma events_get_own:
  "map_of (events e) k = Some arr \<Longrightarrow> events_get e k = Some (Array arr)"
  by (simp add: events_get_def)

lemma events_get_Array:
  "events_get e k = Some (Array arr) \<longleftrightarrow> map_of (events e) k = Some arr"
  by (auto simp: events_get_def Object_prototype_members_def split: option.splits if_splits)

lemma has_event_ordinary:
  "ordinary k \<Longrightarrow> has_event e k \<longleftrightarrow> map_of (events e) k \<noteq> None"
  by (simp add: has_event_def events_get_ordinary)

lemma not_has_event:
  "\<not> has_event e k \<longleftrightarrow> map_of (events e) k = None \<and> ordinary k"
  by (simp add: has_event_def events_get_def ordinary_def split: option.splits)

lemma own_array_update:
  "own_array (e\<lparr>events := AList.update k v (events e)\<rparr>) k' =
     (if k' = k then v else own_array e k')"
  by (simp add: own_array_def update_conv')

lemma own_array_delete:
  "own_array (e\<lparr>events := AList.delete k (events e)\<rparr>) k' =
     (if k' = k then [] else own_array e k')"
  by (simp add: own_array_def delete_conv')

lemma map_of_removeEventListener:
  "map_of (events (removeEventListener e s i)) =
     (case map_of (events e) s of
        None \<Rightarrow> map_of (events e)
      | Some arr \<Rightarrow>
          if take i arr @ drop (Suc i) arr = [] then (map_of (events e))(s := None)
          else (map_of (events e))(s \<mapsto> take i arr @ drop (Suc i) arr))"
  by (simp add: removeEventListener_def Let_def update_conv' delete_conv' split: option.splits)

lemma maxListeners_removeEventListener:
  "maxListeners (removeEventListener e s i) = maxListeners e"
  by (simp add: removeEventListener_def Let_def split: option.splits)

lemma own_array_removeEventListener:
  "own_array (removeEventListener e s i) k =
     (if k = s then take i (own_array e s) @ drop (Suc i) (own_array e s)
      else own_array e k)"
  by (simp add: own_array_def map_of_removeEventListener split: option.splits)

lemma set_Object_keys: "set (Object_keys props) = fst ` set props"
  by (auto simp: Object_keys_def)

subsection \<open>Queries\<close>

lemma listenerCount_all:
  "trim k \<noteq> [] \<Longrightarrow> ordinary k \<Longrightarrow>
     fst (listenerCount e (JString k) JUndefined) = Inr (JInteger (int (length (own_array e k))))"
  by (simp add: listenerCount_def events_get_ordinary own_array_def split: option.splits)

lemma listenerCount_of:
  "trim k \<noteq> [] \<Longrightarrow> ordinary k \<Longrightarrow>
     fst (listenerCount e (JString k) (JFunction f))
       = Inr (JInteger (int (length (filter (\<lambda>ev. listener ev = f) (own_array e k)))))"
  by (simp add: listenerCount_def events_get_ordinary own_array_def split: option.splits)

lemma listenerCount_same_members:
  assumes "\<And>k. events_get e' k = events_get e k
             \<or> (events_get e k = None \<and> events_get e' k = Some (Array []))"
  shows "fst (listenerCount e' eventName listener') = fst (listenerCount e eventName listener')"
proof (cases "invalid_eventName eventName \<or> (listener' \<noteq> JUndefined \<and> not_function listener')")
  case True
  then show ?thesis by (auto simp: listenerCount_def)
next
  case False
  then obtain k where k: "eventName = JString k" "trim k \<noteq> []"
    by (cases eventName) auto
  from False consider "listener' = JUndefined" | f where "listener' = JFunction f"
    by (cases listener') auto
  then show ?thesis
  proof cases
    case 1
    from assms[of k] show ?thesis
      by (elim disjE conjE) (simp_all add: listenerCount_def k 1 split: option.splits)
  next
    case 2
    from assms[of k] show ?thesis
      by (elim disjE conjE) (simp_all add: listenerCount_def k 2 split: option.splits member.splits)
  qed
qed

text \<open>
  C10. The query operations \<open>eventNames\<close>, the \<open>maxListeners\<close> getter,
  \<open>listenerCount\<close>, \<open>listeners\<close> and \<open>rawListeners\<close> never change the registry:
  whatever the arguments, also those the guards refuse, the emitter after the call (the
  event map with its keys, the order of the records and their one-shot flags, and the
  stored capacity) is the emitter before the call.
\<close>

theorem queries_leave_emitter_unchanged:
  "snd (eventNames e) = e
   \<and> snd (get_maxListeners e) = e
   \<and> snd (listenerCount e eventName listener') = e
   \<and> snd (listeners e eventName) = e
   \<and> snd (rawListeners e eventName) = e"
  by (simp add: eventNames_def get_maxListeners_def listenerCount_def listeners_def
      rawListeners_def split: js_value.splits option.splits member.splits)

subsection \<open>The capacity setter\<close>

lemma invalid_maxListeners_iff:
  "invalid_maxListeners v \<longleftrightarrow> \<not> is_capacity v \<and> v \<noteq> JUndefined"
  by (cases v) (simp_all add: is_capacity_def not_le)

lemma some_event_exceeds_iff:
  "list_ex (\<lambda>eventName. case map_of (events e) eventName of
                           Some arr \<Rightarrow> m < enat (length arr) | None \<Rightarrow> False)
     (Object_keys (events e))
     \<longleftrightarrow> (\<exists>eventName arr. map_of (events e) eventName = Some arr \<and> m < enat (length arr))"
proof
  assume "list_ex (\<lambda>eventName. case map_of (events e) eventName of
                           Some arr \<Rightarrow> m < enat (length arr) | None \<Rightarrow> False)
     (Object_keys (events e))"
  then obtain k where "case map_of (events e) k of
      Some arr \<Rightarrow> m < enat (length arr) | None \<Rightarrow> False"
    by (auto simp: list_ex_iff)
  then show "\<exists>eventName arr. map_of (events e) eventName = Some arr \<and> m < enat (length arr)"
    by (cases "map_of (events e) k") auto
next
  assume "\<exists>eventName arr. map_of (events e) eventName = Some arr \<and> m < enat (length arr)"
  then obtain k arr where k: "map_of (events e) k = Some arr" "m < enat (length arr)"
    by blast
  from k(1) have "k \<in> fst ` set (events e)"
    by (metis map_of_eq_None_iff option.distinct(1))
  then have "k \<in> set (Object_keys (events e))" by (simp add: set_Object_keys)
  moreover from k have "case map_of (events e) k of
      Some arr \<Rightarrow> m < enat (length arr) | None \<Rightarrow> False"
    by simp
  ultimately show "list_ex (\<lambda>eventName. case map_of (events e) eventName of
                           Some arr \<Rightarrow> m < enat (length arr) | None \<Rightarrow> False)
     (Object_keys (events e))"
    unfolding list_ex_iff by (rule bexI[rotated])
qed

text \<open>
  C7, as amended. Assigning \<^verbatim>\<open>undefined\<close> to \<open>maxListeners\<close> selects the default
  \<open>10\<close>. The setter raises \<^verbatim>\<open>TypeError('Invalid maxListeners')\<close> when the value is
  neither \<^verbatim>\<open>undefined\<close>, nor a non-negative integer, nor the unbounded sentinel; for the
  remaining values it raises \<^verbatim>\<open>Error('Memory leak detected')\<close> when the array of some
  key of the event map is strictly longer than the proposed capacity; in both failure
  cases the emitter, capacity and event map, is unchanged. Otherwise the stored capacity
  is replaced by the proposed one and nothing else changes.
\<close>

theorem set_maxListeners_validates_then_replaces:
  "capacity_of JUndefined = enat 10 \<and> capacity_of JInfinity = \<infinity>
   \<and> (\<forall>n. capacity_of (JInteger (int n)) = enat n)
   \<and> (\<not> is_capacity v \<and> v \<noteq> JUndefined \<longrightarrow>
         set_maxListeners e v = (Inl (TypeError ''Invalid maxListeners''), e))
   \<and> ((is_capacity v \<or> v = JUndefined)
        \<and> (\<exists>eventName arr. map_of (events e) eventName = Some arr
              \<and> capacity_of v < enat (length arr)) \<longrightarrow>
         set_maxListeners e v = (Inl (Error ''Memory leak detected''), e))
   \<and> ((is_capacity v \<or> v = JUndefined)
        \<and> \<not> (\<exists>eventName arr. map_of (events e) eventName = Some arr
                \<and> capacity_of v < enat (length arr)) \<longrightarrow>
         set_maxListeners e v = (Inr (), e\<lparr>maxListeners := capacity_of v\<rparr>))"
proof -
  have inv: "invalid_maxListeners v \<longleftrightarrow> \<not> is_capacity v \<and> v \<noteq> JUndefined"
    by (rule invalid_maxListeners_iff)
  show ?thesis
    unfolding set_maxListeners_def some_event_exceeds_iff inv by auto
qed

text \<open>
  The amended statement at work on an emitter with two listeners on \<^verbatim>\<open>'test'\<close>:
  \<open>-1\<close> is refused as malformed, \<open>1\<close> is refused because two listeners are
  registered, \<open>2\<close> is stored.
\<close>

theorem set_maxListeners_validates_then_replaces_witness:
  "\<not> is_capacity (JInteger (- 1)) \<and> JInteger (- 1) \<noteq> JUndefined
   \<and> set_maxListeners
        \<lparr>events = [(''test'', [\<lparr>isOnce = False, listener = 1\<rparr>,
                                \<lparr>isOnce = False, listener = 1\<rparr>])],
         maxListeners = enat 10\<rparr> (JInteger (- 1))
       = (Inl (TypeError ''Invalid maxListeners''),
          \<lparr>events = [(''test'', [\<lparr>isOnce = False, listener = 1\<rparr>,
                                  \<lparr>isOnce = False, listener = 1\<rparr>])],
           maxListeners = enat 10\<rparr>)
   \<and> is_capacity (JInteger 1)
   \<and> set_maxListeners
        \<lparr>events = [(''test'', [\<lparr>isOnce = False, listener = 1\<rparr>,
                                \<lparr>isOnce = False, listener = 1\<rparr>])],
         maxListeners = enat 10\<rparr> (JInteger 1)
       = (Inl (Error ''Memory leak detected''),
          \<lparr>events = [(''test'', [\<lparr>isOnce = False, listener = 1\<rparr>,
                                  \<lparr>isOnce = False, listener = 1\<rparr>])],
           maxListeners = enat 10\<rparr>)
   \<and> is_capacity (JInteger 2)
   \<and> set_maxListeners
        \<lparr>events = [(''test'', [\<lparr>isOnce = False, listener = 1\<rparr>,
                                \<lparr>isOnce = False, listener = 1\<rparr>])],
         maxListeners = enat 10\<rparr> (JInteger 2)
       = (Inr (),
          \<lparr>events = [(''test'', [\<lparr>isOnce = False, listener = 1\<rparr>,
                                  \<lparr>isOnce = False, listener = 1\<rparr>])],
           maxListeners = enat 2\<rparr>)"
proof -
  let ?e = "\<lparr>events = [(''test'', [\<lparr>isOnce = False, listener = 1\<rparr>,
                                   \<lparr>isOnce = False, listener = 1\<rparr>])],
            maxListeners = enat 10\<rparr>"
  have bad: "\<not> is_capacity (JInteger (- 1)) \<and> JInteger (- 1) \<noteq> JUndefined"
    by (simp add: is_capacity_def)
  have one: "is_capacity (JInteger 1)" and two: "is_capacity (JInteger 2)"
    by (simp_all add: is_capacity_def)
  have over: "\<exists>eventName arr. map_of (events ?e) eventName = Some arr
      \<and> capacity_of (JInteger 1) < enat (length arr)"
    by (rule exI[of _ "''test''"]) simp
  have fits: "\<not> (\<exists>eventName arr. map_of (events ?e) eventName = Some arr
      \<and> capacity_of (JInteger 2) < enat (length arr))"
    by (auto split: if_splits)
  from set_maxListeners_validates_then_replaces[of "JInteger (- 1)" ?e] bad
  have 1: "set_maxListeners ?e (JInteger (- 1)) = (Inl (TypeError ''Invalid maxListeners''), ?e)"
    by blast
  from set_maxListeners_validates_then_replaces[of "JInteger 1" ?e] one over
  have 2: "set_maxListeners ?e (JInteger 1) = (Inl (Error ''Memory leak detected''), ?e)"
    by blast
  from set_maxListeners_validates_then_replaces[of "JInteger 2" ?e] two fits
  have 3: "set_maxListeners ?e (JInteger 2) = (Inr (), ?e\<lparr>maxListeners := capacity_of (JInteger 2)\<rparr>)"
    by blast
  from bad one two 1 2 3 show ?thesis by simp
qed

text \<open>
  C7 as the claim states it, that every value which is neither a non-negative integer
  nor the unbounded sentinel is refused, fails for \<^verbatim>\<open>undefined\<close>: the setter's default
  parameter turns it into \<open>10\<close> and the assignment succeeds.
\<close>

theorem set_maxListeners_undefined_is_accepted:
  "\<not> is_capacity JUndefined
   \<and> set_maxListeners \<lparr>events = [], maxListeners = enat 5\<rparr> JUndefined
       = (Inr (), \<lparr>events = [], maxListeners = enat 10\<rparr>)"
  by (simp add: is_capacity_def set_maxListeners_def keys_defs)

subsection \<open>Registration and capacity\<close>

lemma addEventListener_ordinary_eq:
  assumes "trim s \<noteq> []"
      and "ordinary (trim s) \<or> map_of (events e) (trim s) \<noteq> None"
  shows "addEventListener e (JString s) (JFunction f) prepend once' =
     (let e1 = (if map_of (events e) (trim s) \<noteq> None then e
                else e\<lparr>events := AList.update (trim s) [] (events e)\<rparr>)
      in if maxListeners e < enat (length (own_array e (trim s)) + 1)
         then (Inl (Error ''Memory leak detected''), e1)
         else (Inr (), e1\<lparr>events := AList.update (trim s)
                 (if prepend then \<lparr>isOnce = once', listener = f\<rparr> # own_array e (trim s)
                  else own_array e (trim s) @ [\<lparr>isOnce = once', listener = f\<rparr>])
                 (events e1)\<rparr>))"
proof (cases "map_of (events e) (trim s)")
  case None
  with assms(2) have no: "\<not> has_event e (trim s)" by (simp add: not_has_event)
  have "events_get (e\<lparr>events := AList.update (trim s) [] (events e)\<rparr>) (trim s) = Some (Array [])"
    by (simp add: events_get_def update_conv')
  with assms(1) no None show ?thesis
    by (simp add: addEventListener_def Let_def own_array_def)
next
  case (Some arr)
  then have has: "has_event e (trim s)" and get: "events_get e (trim s) = Some (Array arr)"
    by (simp_all add: has_event_def events_get_def)
  with assms(1) Some show ?thesis
    by (simp add: addEventListener_def Let_def own_array_def)
qed

lemma addEventListener_ordinary:
  assumes "trim s \<noteq> []"
      and "ordinary (trim s) \<or> map_of (events e) (trim s) \<noteq> None"
      and "addEventListener e (JString s) (JFunction f) prepend once' = (r, e')"
  shows "(r = Inr ()) = (enat (length (own_array e (trim s)) + 1) \<le> maxListeners e)"
    and "r \<noteq> Inr () \<Longrightarrow> r = Inl (Error ''Memory leak detected'')"
    and "r \<noteq> Inr () \<Longrightarrow>
           map_of (events e') = map_of (events e)
           \<or> (map_of (events e) (trim s) = None
               \<and> map_of (events e') = (map_of (events e))(trim s \<mapsto> []))"
    and "r = Inr () \<Longrightarrow> own_array e' (trim s) =
           (if prepend then \<lparr>isOnce = once', listener = f\<rparr> # own_array e (trim s)
            else own_array e (trim s) @ [\<lparr>isOnce = once', listener = f\<rparr>])"
    and "r = Inr () \<Longrightarrow>
           map_of (events e') = (map_of (events e))(trim s \<mapsto>
             (if prepend then \<lparr>isOnce = once', listener = f\<rparr> # own_array e (trim s)
              else own_array e (trim s) @ [\<lparr>isOnce = once', listener = f\<rparr>]))"
proof -
  note eq = assms(3)[unfolded addEventListener_ordinary_eq[OF assms(1,2)] Let_def]
  show "(r = Inr ()) = (enat (length (own_array e (trim s)) + 1) \<le> maxListeners e)"
    using eq by (cases "maxListeners e < enat (length (own_array e (trim s)) + 1)") auto
  show "r \<noteq> Inr () \<Longrightarrow> r = Inl (Error ''Memory leak detected'')"
    using eq by (cases "maxListeners e < enat (length (own_array e (trim s)) + 1)") auto
  show "r \<noteq> Inr () \<Longrightarrow>
           map_of (events e') = map_of (events e)
           \<or> (map_of (events e) (trim s) = None
               \<and> map_of (events e') = (map_of (events e))(trim s \<mapsto> []))"
    using eq
    by (cases "maxListeners e < enat (length (own_array e (trim s)) + 1)";
        cases "map_of (events e) (trim s)")
      (auto simp: update_conv')
  show "r = Inr () \<Longrightarrow> own_array e' (trim s) =
           (if prepend then \<lparr>isOnce = once', listener = f\<rparr> # own_array e (trim s)
            else own_array e (trim s) @ [\<lparr>isOnce = once', listener = f\<rparr>])"
    using eq
    by (cases "maxListeners e < enat (length (own_array e (trim s)) + 1)";
        cases "map_of (events e) (trim s)")
      (auto simp: own_array_update)
  show "r = Inr () \<Longrightarrow>
           map_of (events e') = (map_of (events e))(trim s \<mapsto>
             (if prepend then \<lparr>isOnce = once', listener = f\<rparr> # own_array e (trim s)
              else own_array e (trim s) @ [\<lparr>isOnce = once', listener = f\<rparr>]))"
    using eq
    by (cases "maxListeners e < enat (length (own_array e (trim s)) + 1)";
        cases "map_of (events e) (trim s)")
      (auto simp: update_conv')
qed

lemma registration_variant_flags:
  assumes "register \<in> set registration_variants"
  shows "\<exists>prepend once'. \<forall>e eventName listener'.
     register e eventName listener' = addEventListener e eventName listener' prepend once'"
proof -
  from assms have "register = addListener \<or> register = on \<or> register = prependListener
      \<or> register = once \<or> register = prependOnceListener"
    by (simp add: registration_variants_def)
  then show ?thesis
  proof (elim disjE)
    assume "register = addListener"
    then have "\<forall>e eventName listener'.
        register e eventName listener' = addEventListener e eventName listener' False False"
      by (simp add: addListener_def)
    then show ?thesis by blast
  next
    assume "register = on"
    then have "\<forall>e eventName listener'.
        register e eventName listener' = addEventListener e eventName listener' False False"
      by (simp add: on_def addListener_def)
    then show ?thesis by blast
  next
    assume "register = prependListener"
    then have "\<forall>e eventName listener'.
        register e eventName listener' = addEventListener e eventName listener' True False"
      by (simp add: prependListener_def)
    then show ?thesis by blast
  next
    assume "register = once"
    then have "\<forall>e eventName listener'.
        register e eventName listener' = addEventListener e eventName listener' False True"
      by (simp add: once_def)
    then show ?thesis by blast
  next
    assume "register = prependOnceListener"
    then have "\<forall>e eventName listener'.
        register e eventName listener' = addEventListener e eventName listener' True True"
      by (simp add: prependOnceListener_def)
    then show ?thesis by blast
  qed
qed

text \<open>
  Registration under a name that \<^verbatim>\<open>Object.prototype\<close> does not have. Take any of the
  five registration methods and a function. Let \<open>n\<close> be the number of listeners
  registered for the trimmed name and \<open>c\<close> the number of those that are this very
  function, both as \<open>listenerCount\<close> reports them. The registration succeeds exactly
  when \<open>n + 1\<close> is at most the capacity. When it does not succeed it raises
  \<^verbatim>\<open>Error('Memory leak detected')\<close> and every result of \<open>listenerCount\<close> is what it
  was before. When it succeeds both counts have grown by one, also when the function was
  registered already.
\<close>

lemma registration_on_ordinary_name:
  assumes "register \<in> set registration_variants"
      and "\<not> invalid_eventName (JString s)" and "ordinary (trim s)"
      and "fst (listenerCount e (JString (trim s)) JUndefined) = Inr (JInteger (int n))"
      and "fst (listenerCount e (JString (trim s)) (JFunction f)) = Inr (JInteger (int c))"
      and "register e (JString s) (JFunction f) = (r, e')"
  shows "(r = Inr () \<longleftrightarrow> enat (n + 1) \<le> maxListeners e)
     \<and> (r \<noteq> Inr () \<longrightarrow> r = Inl (Error ''Memory leak detected'')
           \<and> (\<forall>eventName listener'.
                 fst (listenerCount e' eventName listener')
                   = fst (listenerCount e eventName listener')))
     \<and> (r = Inr () \<longrightarrow>
           fst (listenerCount e' (JString (trim s)) JUndefined) = Inr (JInteger (int (n + 1)))
           \<and> fst (listenerCount e' (JString (trim s)) (JFunction f))
               = Inr (JInteger (int (c + 1))))"
proof -
  from assms(2) have valid: "trim s \<noteq> []" by simp
  then have valid': "trim (trim s) \<noteq> []" by (simp add: trim_trim)
  note ord = assms(3)
  from ord have ord': "ordinary (trim s) \<or> map_of (events e) (trim s) \<noteq> None" by simp
  from assms(4) have n: "n = length (own_array e (trim s))"
    by (simp add: listenerCount_all[OF valid' ord])
  from assms(5) have c: "c = length (filter (\<lambda>ev. listener ev = f) (own_array e (trim s)))"
    by (simp add: listenerCount_of[OF valid' ord])
  from registration_variant_flags[OF assms(1)] obtain prepend once' where
    "register e (JString s) (JFunction f)
       = addEventListener e (JString s) (JFunction f) prepend once'"
    by blast
  with assms(6) have "addEventListener e (JString s) (JFunction f) prepend once' = (r, e')"
    by simp
  note add = addEventListener_ordinary[OF valid ord' this]
  have ok: "(r = Inr ()) = (enat (n + 1) \<le> maxListeners e)"
    using add(1) n by simp
  have err: "r \<noteq> Inr () \<longrightarrow> r = Inl (Error ''Memory leak detected'')"
    using add(2) by simp
  have same: "r \<noteq> Inr () \<longrightarrow> (\<forall>eventName listener'.
       fst (listenerCount e' eventName listener') = fst (listenerCount e eventName listener'))"
  proof (intro impI allI)
    fix eventName listener'
    assume "r \<noteq> Inr ()"
    from add(3)[OF this] have "events_get e' k = events_get e k
        \<or> (events_get e k = None \<and> events_get e' k = Some (Array []))" for k
    proof (elim disjE conjE)
      assume "map_of (events e') = map_of (events e)"
      then show ?thesis by (simp add: events_get_def)
    next
      assume a: "map_of (events e) (trim s) = None"
         "map_of (events e') = (map_of (events e))(trim s \<mapsto> [])"
      show ?thesis
      proof (cases "k = trim s")
        case True
        with a ord show ?thesis by (simp add: events_get_def ordinary_def)
      next
        case False
        with a show ?thesis by (simp add: events_get_def)
      qed
    qed
    then show "fst (listenerCount e' eventName listener')
        = fst (listenerCount e eventName listener')"
      by (rule listenerCount_same_members)
  qed
  have more: "r = Inr () \<longrightarrow>
      fst (listenerCount e' (JString (trim s)) JUndefined) = Inr (JInteger (int (n + 1)))"
    using add(4) n by (simp add: listenerCount_all[OF valid' ord])
  have more_f: "r = Inr () \<longrightarrow>
      fst (listenerCount e' (JString (trim s)) (JFunction f)) = Inr (JInteger (int (c + 1)))"
    using add(4) c by (simp add: listenerCount_of[OF valid' ord])
  from ok err same more more_f show ?thesis by (intro conjI) simp_all
qed

text \<open>
  C6. The claim: with capacity \<open>m\<close> and \<open>n\<close> listeners on an event, every registration
  method succeeds exactly when \<open>n + 1 \<le> m\<close>, and a registration that raises the
  capacity error leaves the listener count unchanged.

  The code does this for the names \<^verbatim>\<open>Object.prototype\<close> does not have, as shown
  above, and not for the others. On a fresh emitter of capacity \<open>10\<close>,
  \<open>listenerCount\<close> reports \<open>0\<close> for \<^verbatim>\<open>'toString'\<close>, so \<open>n + 1 \<le> m\<close> holds; yet
  \<open>addListener\<close> fails: \<^verbatim>\<open>'toString' in this.#events\<close> is true, no array is
  created, and \<^verbatim>\<open>push\<close> is called on the inherited function.
\<close>

theorem registration_on_inherited_name_fails:
  "new_Emitter JUndefined = Inr \<lparr>events = [], maxListeners = 10\<rparr>
   \<and> \<not> invalid_eventName (JString ''toString'')
   \<and> listenerCount \<lparr>events = [], maxListeners = 10\<rparr> (JString ''toString'') JUndefined
       = (Inr (JInteger 0), \<lparr>events = [], maxListeners = 10\<rparr>)
   \<and> enat (0 + 1) \<le> maxListeners \<lparr>events = [], maxListeners = 10\<rparr>
   \<and> addListener \<lparr>events = [], maxListeners = 10\<rparr> (JString ''toString'') (JFunction 1)
       = (Inl (NotAFunction ''push''), \<lparr>events = [], maxListeners = 10\<rparr>)"
  by (simp add: new_Emitter_def set_maxListeners_def listenerCount_def addListener_def
      addEventListener_def ev_defs keys_defs numeral_eq_enat one_enat_def)

text \<open>
  With capacity \<open>0\<close> every registration under a name that \<^verbatim>\<open>Object.prototype\<close> does
  not have raises \<^verbatim>\<open>Error('Memory leak detected')\<close>.
\<close>

lemma zero_capacity_on_ordinary_name:
  assumes "maxListeners e = 0"
      and "\<not> invalid_eventName (JString s)" and "ordinary (trim s)"
      and "register \<in> set registration_variants"
  shows "fst (register e (JString s) (JFunction f)) = Inl (Error ''Memory leak detected'')"
proof -
  from assms(2) have valid: "trim s \<noteq> []" by simp
  from registration_variant_flags[OF assms(4)] obtain prepend once' where
    reg: "register e (JString s) (JFunction f)
       = addEventListener e (JString s) (JFunction f) prepend once'"
    by blast
  obtain r e' where run: "addEventListener e (JString s) (JFunction f) prepend once' = (r, e')"
    by (cases "addEventListener e (JString s) (JFunction f) prepend once'")
  from assms(3) have "ordinary (trim s) \<or> map_of (events e) (trim s) \<noteq> None" by simp
  note add = addEventListener_ordinary[OF valid this run]
  from add(1) assms(1)
  have "r \<noteq> Inr ()" by (simp add: zero_enat_def)
  with add(2) reg run show ?thesis by simp
qed

text \<open>
  C9. The claim: on an emitter whose capacity is \<open>0\<close> every call of a registration
  method with valid arguments raises \<^verbatim>\<open>Error('Memory leak detected')\<close>.

  For \<^verbatim>\<open>'__proto__'\<close> the capacity test reads the \<^verbatim>\<open>length\<close> of
  \<^verbatim>\<open>Object.prototype\<close>, which is \<^verbatim>\<open>undefined\<close>; \<^verbatim>\<open>undefined + 1 > 0\<close> is false, the
  test passes, and \<^verbatim>\<open>push\<close> is called on an object that has none: the call ends in
  the language's \<^verbatim>\<open>TypeError\<close>, not in the capacity error.
\<close>

theorem zero_capacity_registration_on_proto_name:
  "new_Emitter (JInteger 0) = Inr \<lparr>events = [], maxListeners = 0\<rparr>
   \<and> \<not> invalid_eventName (JString ''__proto__'')
   \<and> once \<lparr>events = [], maxListeners = 0\<rparr> (JString ''__proto__'') (JFunction 1)
       = (Inl (NotAFunction ''push''), \<lparr>events = [], maxListeners = 0\<rparr>)"
  by (simp add: new_Emitter_def set_maxListeners_def once_def addEventListener_def
      ev_defs keys_defs zero_enat_def)

subsection \<open>Keys of the event map\<close>

text \<open>
  No operation produces an own key with an empty array, with one exception: a
  registration that fails the capacity test on an emitter of capacity \<open>0\<close>.
\<close>

lemma keys_nonempty_removeEventListener:
  "keys_nonempty e \<Longrightarrow> keys_nonempty (removeEventListener e s i)"
  unfolding keys_nonempty_def
  by (auto simp: map_of_removeEventListener split: option.splits if_splits)

lemma keys_nonempty_forEach_isOnce:
  "keys_nonempty e \<Longrightarrow> keys_nonempty (forEach_isOnce s indices e)"
proof (induction indices arbitrary: e)
  case Nil
  then show ?case by simp
next
  case (Cons index rest)
  from Cons.prems have "keys_nonempty (removeEventListener e s index)"
    by (rule keys_nonempty_removeEventListener)
  with Cons.IH[of e] Cons.IH[of "removeEventListener e s index"] Cons.prems
  show ?case by (simp split: option.splits)
qed

lemma keys_nonempty_set_maxListeners:
  "keys_nonempty e \<Longrightarrow> keys_nonempty (snd (set_maxListeners e v))"
  by (simp add: set_maxListeners_def keys_nonempty_def)

lemma keys_nonempty_new_Emitter:
  "new_Emitter v = Inr e \<Longrightarrow> keys_nonempty e"
  by (auto simp: new_Emitter_def set_maxListeners_def keys_nonempty_def split: if_splits)

lemma keys_nonempty_removeAllListeners:
  assumes "keys_nonempty e"
  shows "keys_nonempty (snd (removeAllListeners e eventName))"
proof -
  have "keys_nonempty (e\<lparr>events := []\<rparr>)"
    by (simp add: keys_nonempty_def)
  moreover have "keys_nonempty (e\<lparr>events := AList.delete s (events e)\<rparr>)" for s
    using assms by (simp add: keys_nonempty_def delete_conv')
  ultimately show ?thesis
    using assms by (cases eventName) (simp_all add: removeAllListeners_def)
qed

lemma addEventListener_inherited:
  assumes "trim s \<noteq> []" and "map_of (events e) (trim s) = None" and "\<not> ordinary (trim s)"
  shows "snd (addEventListener e (JString s) (JFunction f) prepend once') = e"
proof -
  from assms(2,3) have has: "has_event e (trim s)"
    and get: "events_get e (trim s) \<noteq> None" "\<And>arr. events_get e (trim s) \<noteq> Some (Array arr)"
    by (simp_all add: has_event_def events_get_Array) (simp_all add: events_get_def ordinary_def)
  with assms(1) show ?thesis
    by (simp add: addEventListener_def Let_def split: option.splits member.splits)
qed

lemma keys_nonempty_addEventListener:
  assumes "keys_nonempty e"
      and "addEventListener e eventName listener' prepend once' = (r, e')"
      and "r = Inl (Error ''Memory leak detected'') \<Longrightarrow> maxListeners e \<noteq> 0"
  shows "keys_nonempty e'"
proof (cases "invalid_eventName eventName \<or> not_function listener'")
  case True
  with assms(2) have "e' = e"
    by (cases "invalid_eventName eventName") (simp_all add: addEventListener_def)
  with assms(1) show ?thesis by simp
next
  case False
  then obtain s f where sf: "eventName = JString s" "listener' = JFunction f" "trim s \<noteq> []"
    by (cases eventName; cases listener') auto
  show ?thesis
  proof (cases "map_of (events e) (trim s) = None \<and> \<not> ordinary (trim s)")
    case True
    with addEventListener_inherited[OF sf(3), of e f prepend once'] assms(2)
    have "e' = e" by (simp add: sf)
    with assms(1) show ?thesis by simp
  next
    case False
    then have ord: "ordinary (trim s) \<or> map_of (events e) (trim s) \<noteq> None" by auto
    note add = addEventListener_ordinary[OF sf(3) ord assms(2)[unfolded sf(1,2)]]
    show ?thesis
    proof (cases "r = Inr ()")
      case True
      from add(5)[OF True] assms(1) show ?thesis
        by (auto simp: keys_nonempty_def split: if_splits)
    next
      case err: False
      from add(2)[OF err] have r: "r = Inl (Error ''Memory leak detected'')" .
      from add(3)[OF err] show ?thesis
      proof (elim disjE conjE)
        assume "map_of (events e') = map_of (events e)"
        with assms(1) show ?thesis by (simp add: keys_nonempty_def)
      next
        assume none: "map_of (events e) (trim s) = None"
        then have "own_array e (trim s) = []" by (simp add: own_array_def)
        with add(1) err have "\<not> enat 1 \<le> maxListeners e" by simp
        then have "maxListeners e = 0"
          by (cases "maxListeners e") (simp_all add: zero_enat_def one_enat_def)
        with assms(3)[OF r] show ?thesis by simp
      qed
    qed
  qed
qed

text \<open>
  C3. The claim: in every state the public operations can reach, every key of the event
  map has a non-empty array, also after an operation that ended in an error: a
  registration that raises the capacity error on a new event name leaves no key behind.

  \<^verbatim>\<open>#addEventListener\<close> creates the empty array first and tests the capacity
  afterwards. On an emitter built with capacity \<open>0\<close> the first registration throws
  \<^verbatim>\<open>Memory leak detected\<close> and the key stays, with an empty array; \<open>eventNames\<close>
  lists it.
\<close>

theorem failed_registration_leaves_empty_key:
  "new_Emitter (JInteger 0) = Inr \<lparr>events = [], maxListeners = 0\<rparr>
   \<and> addListener \<lparr>events = [], maxListeners = 0\<rparr> (JString ''test'') (JFunction 1)
       = (Inl (Error ''Memory leak detected''), \<lparr>events = [(''test'', [])], maxListeners = 0\<rparr>)
   \<and> eventNames \<lparr>events = [(''test'', [])], maxListeners = 0\<rparr>
       = (Inr [''test''], \<lparr>events = [(''test'', [])], maxListeners = 0\<rparr>)
   \<and> events_get \<lparr>events = [(''test'', [])], maxListeners = 0\<rparr> ''test'' = Some (Array [])"
  by (simp add: new_Emitter_def set_maxListeners_def addListener_def addEventListener_def
      eventNames_def ev_defs keys_defs zero_enat_def)

subsection \<open>Event names and white space\<close>

text \<open>
  C4. The claim: two event names that are equal after trimming are the same event for
  every operation; listeners registered under a padded name are found under the trimmed
  one, and the other way round.

  Only \<^verbatim>\<open>#addEventListener\<close> replaces the name by its trimmed form. The other methods
  use \<^verbatim>\<open>trim\<close> in their guard and then look the name up as it was given. After
  \<open>addListener\<close> on \<^verbatim>\<open>'test'\<close>, the name \<^verbatim>\<open>' test '\<close> (equal after trimming) is an
  unknown event to \<open>emit\<close>, \<open>listenerCount\<close>, \<open>rawListeners\<close> and
  \<open>removeListener\<close>.
\<close>

theorem padded_name_misses_registered_listeners:
  "addListener \<lparr>events = [], maxListeners = 10\<rparr> (JString ''test'') (JFunction 1)
     = (Inr (), \<lparr>events = [(''test'', [\<lparr>isOnce = False, listener = 1\<rparr>])], maxListeners = 10\<rparr>)
   \<and> trim '' test '' = trim ''test''
   \<and> emit (\<lambda>index f args. Fulfils)
        \<lparr>events = [(''test'', [\<lparr>isOnce = False, listener = 1\<rparr>])], maxListeners = 10\<rparr>
        (JString '' test '') []
       = (Inr False, [],
          \<lparr>events = [(''test'', [\<lparr>isOnce = False, listener = 1\<rparr>])], maxListeners = 10\<rparr>)
   \<and> fst (listenerCount
          \<lparr>events = [(''test'', [\<lparr>isOnce = False, listener = 1\<rparr>])], maxListeners = 10\<rparr>
          (JString '' test '') JUndefined) = Inr (JInteger 0)
   \<and> fst (listenerCount
          \<lparr>events = [(''test'', [\<lparr>isOnce = False, listener = 1\<rparr>])], maxListeners = 10\<rparr>
          (JString ''test'') JUndefined) = Inr (JInteger 1)
   \<and> fst (rawListeners
          \<lparr>events = [(''test'', [\<lparr>isOnce = False, listener = 1\<rparr>])], maxListeners = 10\<rparr>
          (JString '' test '')) = Inr []
   \<and> removeListener
          \<lparr>events = [(''test'', [\<lparr>isOnce = False, listener = 1\<rparr>])], maxListeners = 10\<rparr>
          (JString '' test '') (JFunction 1)
       = (Inr (), \<lparr>events = [(''test'', [\<lparr>isOnce = False, listener = 1\<rparr>])], maxListeners = 10\<rparr>)"
  by (simp add: addListener_def addEventListener_def emit_def listenerCount_def rawListeners_def
      removeListener_def ev_defs)

subsection \<open>Removal\<close>

lemma findIndex_none: "(\<forall>x\<in>set xs. \<not> P x) \<Longrightarrow> findIndex P xs = - 1"
  by (induction xs) (simp_all add: Let_def)

lemma findIndex_first:
  "(\<forall>x\<in>set pre. \<not> P x) \<Longrightarrow> P y \<Longrightarrow> findIndex P (pre @ y # post) = int (length pre)"
  by (induction pre) (simp_all add: Let_def)

lemma removeListener_ordinary_eq:
  assumes "trim s \<noteq> []" and "ordinary s"
  shows "removeListener e (JString s) (JFunction f) =
     (Inr (), case map_of (events e) s of
                None \<Rightarrow> e
              | Some arr \<Rightarrow>
                  if findIndex (\<lambda>ev. listener ev = f) arr > - 1
                  then removeEventListener e s (nat (findIndex (\<lambda>ev. listener ev = f) arr))
                  else e)"
  using assms
  by (simp add: removeListener_def Let_def events_get_ordinary split: option.splits)

lemma keys_nonempty_removeListener:
  assumes "keys_nonempty e"
  shows "keys_nonempty (snd (removeListener e eventName listener'))"
proof -
  have "snd (removeListener e eventName listener') = e
      \<or> (\<exists>s i. snd (removeListener e eventName listener') = removeEventListener e s i)"
    by (simp add: removeListener_def Let_def split: js_value.splits option.splits member.splits)
      blast
  with assms show ?thesis by (auto intro: keys_nonempty_removeEventListener)
qed

text \<open>
  Removal under a name that \<^verbatim>\<open>Object.prototype\<close> does not have: \<open>removeListener\<close>
  returns normally and leaves the capacity and every other event alone. When the name is
  not a key, or no record of its array holds the function \<open>f\<close>, the emitter is
  unchanged. Otherwise the array is \<open>pre @ ev # post\<close> with \<open>ev\<close> the first record
  holding \<open>f\<close>, and afterwards it is \<open>pre @ post\<close>: only that record is gone, later
  records holding \<open>f\<close> stay; when \<open>pre @ post\<close> is empty the name is no longer a key.
\<close>

lemma removeListener_on_ordinary_name:
  assumes "\<not> invalid_eventName (JString s)" and "ordinary s"
      and "removeListener e (JString s) (JFunction f) = (r, e')"
  shows "r = Inr () \<and> maxListeners e' = maxListeners e
     \<and> (\<forall>name. name \<noteq> s \<longrightarrow> map_of (events e') name = map_of (events e) name)
     \<and> (map_of (events e) s = None \<longrightarrow> e' = e)
     \<and> (\<forall>arr. map_of (events e) s = Some arr \<and> (\<forall>ev\<in>set arr. listener ev \<noteq> f)
           \<longrightarrow> e' = e)
     \<and> (\<forall>pre ev post.
           map_of (events e) s = Some (pre @ ev # post)
           \<and> (\<forall>x\<in>set pre. listener x \<noteq> f) \<and> listener ev = f
           \<longrightarrow> map_of (events e') s = (if pre @ post = [] then None else Some (pre @ post)))"
proof -
  from assms(1) have valid: "trim s \<noteq> []" by simp
  note eq = assms(3)[unfolded removeListener_ordinary_eq[OF valid assms(2)]]
  have r: "r = Inr ()" using eq by simp
  have e': "e' = (case map_of (events e) s of
                None \<Rightarrow> e
              | Some arr \<Rightarrow>
                  if findIndex (\<lambda>ev. listener ev = f) arr > - 1
                  then removeEventListener e s (nat (findIndex (\<lambda>ev. listener ev = f) arr))
                  else e)"
    using eq by simp
  have cap: "maxListeners e' = maxListeners e"
    by (simp add: e' maxListeners_removeEventListener split: option.splits)
  have others: "\<forall>name. name \<noteq> s \<longrightarrow> map_of (events e') name = map_of (events e) name"
    by (simp add: e' map_of_removeEventListener split: option.splits)
  have unknown: "map_of (events e) s = None \<longrightarrow> e' = e"
    by (simp add: e')
  have no_match: "\<forall>arr. map_of (events e) s = Some arr \<and> (\<forall>ev\<in>set arr. listener ev \<noteq> f)
           \<longrightarrow> e' = e"
  proof (intro allI impI)
    fix arr
    assume a: "map_of (events e) s = Some arr \<and> (\<forall>ev\<in>set arr. listener ev \<noteq> f)"
    then have "findIndex (\<lambda>ev. listener ev = f) arr = - 1"
      by (simp add: findIndex_none)
    with a show "e' = e" by (simp add: e')
  qed
  have first: "\<forall>pre ev post.
           map_of (events e) s = Some (pre @ ev # post)
           \<and> (\<forall>x\<in>set pre. listener x \<noteq> f) \<and> listener ev = f
           \<longrightarrow> map_of (events e') s = (if pre @ post = [] then None else Some (pre @ post))"
  proof (intro allI impI)
    fix pre ev post
    assume a: "map_of (events e) s = Some (pre @ ev # post)
           \<and> (\<forall>x\<in>set pre. listener x \<noteq> f) \<and> listener ev = f"
    then have idx: "findIndex (\<lambda>ev. listener ev = f) (pre @ ev # post) = int (length pre)"
      by (simp add: findIndex_first)
    from a have "e' = removeEventListener e s (length pre)"
      by (simp add: e' idx)
    with a show "map_of (events e') s = (if pre @ post = [] then None else Some (pre @ post))"
      by (simp add: map_of_removeEventListener)
  qed
  from r cap others unknown no_match first show ?thesis by (intro conjI)
qed

text \<open>
  C8. The claim: for every valid event name \<open>removeListener\<close> removes the first record
  that holds the given function and is a no-op, without an error, when no record matches
  or the event name is unknown.

  The code does this for the names \<^verbatim>\<open>Object.prototype\<close> does not have, as shown
  above. On a fresh emitter, which has no event at all, \<open>removeListener\<close> with the name
  \<^verbatim>\<open>'toString'\<close> is not a no-op: \<^verbatim>\<open>'toString' in this.#events\<close> is true and
  \<^verbatim>\<open>findIndex\<close> is called on the inherited function, which ends in the language's
  \<^verbatim>\<open>TypeError\<close>.
\<close>

theorem removeListener_on_inherited_name_throws:
  "new_Emitter JUndefined = Inr \<lparr>events = [], maxListeners = 10\<rparr>
   \<and> \<not> invalid_eventName (JString ''toString'')
   \<and> eventNames \<lparr>events = [], maxListeners = 10\<rparr>
       = (Inr [], \<lparr>events = [], maxListeners = 10\<rparr>)
   \<and> removeListener \<lparr>events = [], maxListeners = 10\<rparr> (JString ''toString'') (JFunction 1)
       = (Inl (NotAFunction ''findIndex''), \<lparr>events = [], maxListeners = 10\<rparr>)"
  by (simp add: new_Emitter_def set_maxListeners_def eventNames_def removeListener_def
      ev_defs keys_defs numeral_eq_enat)

subsection \<open>Emission\<close>

text \<open>
  What \<open>emit\<close> does when no listener throws: a name that is neither a key nor a member
  of \<^verbatim>\<open>Object.prototype\<close> gives \<open>false\<close> without a call; a key gives \<open>true\<close>,
  every record's listener is called once, in array order, with the arguments of
  \<open>emit\<close>, and the records that are not one-shot are registered afterwards as before,
  in the same order.
\<close>

lemma map_listeners_no_throw:
  assumes "\<And>index f. beh index f args \<noteq> Throws"
  shows "map_listeners beh index evs args = (map (\<lambda>ev. (listener ev, args)) evs, None)"
proof (induction evs arbitrary: index)
  case Nil
  show ?case by simp
next
  case (Cons ev evs)
  from assms[of index "listener ev"] Cons.IH[of "Suc index"] show ?case
    by (cases "beh index (listener ev) args") simp_all
qed

lemma filter_splice_once:
  assumes "i < length arr" and "isOnce (arr ! i)"
  shows "filter (\<lambda>ev. \<not> isOnce ev) (take i arr @ drop (Suc i) arr)
       = filter (\<lambda>ev. \<not> isOnce ev) arr"
proof -
  from assms(1) have "arr = take i arr @ arr ! i # drop (Suc i) arr"
    by (rule id_take_nth_drop)
  then have "filter (\<lambda>ev. \<not> isOnce ev) arr
      = filter (\<lambda>ev. \<not> isOnce ev) (take i arr @ arr ! i # drop (Suc i) arr)"
    by simp
  also have "\<dots> = filter (\<lambda>ev. \<not> isOnce ev) (take i arr @ drop (Suc i) arr)"
    using assms(2) by simp
  finally show ?thesis by simp
qed

lemma forEach_isOnce_keeps_permanent:
  "filter (\<lambda>ev. \<not> isOnce ev) (own_array (forEach_isOnce s indices e) s)
     = filter (\<lambda>ev. \<not> isOnce ev) (own_array e s)"
proof (induction indices arbitrary: e)
  case Nil
  show ?case by simp
next
  case (Cons index rest)
  show ?case
  proof (cases "map_of (events e) s")
    case None
    then show ?thesis by simp
  next
    case (Some arr)
    then have arr: "own_array e s = arr" by (simp add: own_array_def)
    show ?thesis
    proof (cases "index < length arr \<and> isOnce (arr ! index)")
      case True
      with Some have "forEach_isOnce s (index # rest) e
          = forEach_isOnce s rest (removeEventListener e s index)"
        by simp
      moreover have "filter (\<lambda>ev. \<not> isOnce ev) (own_array (removeEventListener e s index) s)
          = filter (\<lambda>ev. \<not> isOnce ev) (own_array e s)"
        using filter_splice_once[of index arr] True
        by (simp add: own_array_removeEventListener arr)
      ultimately show ?thesis
        using Cons.IH[of "removeEventListener e s index"] by simp
    next
      case False
      with Some have "forEach_isOnce s (index # rest) e = forEach_isOnce s rest e"
        by auto
      then show ?thesis using Cons.IH[of e] by simp
    qed
  qed
qed

lemma emit_unknown_event:
  assumes "\<not> invalid_eventName (JString s)" and "\<not> has_event e s"
  shows "emit beh e (JString s) args = (Inr False, [], e)"
  using assms by (simp add: emit_def has_event_def)

lemma emit_calls_every_listener:
  assumes "\<not> invalid_eventName (JString s)" and "map_of (events e) s = Some arr"
      and "\<And>index f. beh index f args \<noteq> Throws"
  shows "\<exists>e'. emit beh e (JString s) args
           = (Inr True, map (\<lambda>ev. (listener ev, args)) arr, e')
         \<and> filter (\<lambda>ev. \<not> isOnce ev) (own_array e' s) = filter (\<lambda>ev. \<not> isOnce ev) arr"
proof -
  have "map_listeners beh 0 arr args = (map (\<lambda>ev. (listener ev, args)) arr, None)"
    using assms(3) by (rule map_listeners_no_throw)
  moreover from assms(2) have "own_array e s = arr" by (simp add: own_array_def)
  ultimately show ?thesis
    using assms(1,2) forEach_isOnce_keeps_permanent[of s "[0..<length arr]" e]
    by (simp add: emit_def events_get_own)
qed

lemma keys_nonempty_emit:
  assumes "keys_nonempty e" and "emit beh e eventName args = (r, calls, e')"
  shows "keys_nonempty e'"
proof -
  have "snd (snd (emit beh e eventName args)) = e
      \<or> (\<exists>s indices. snd (snd (emit beh e eventName args)) = forEach_isOnce s indices e)"
    by (simp add: emit_def split: js_value.splits option.splits member.splits prod.splits)
      blast
  with assms(2) have "e' = e \<or> (\<exists>s indices. e' = forEach_isOnce s indices e)" by simp
  with assms(1) show ?thesis by (auto intro: keys_nonempty_forEach_isOnce)
qed

text \<open>
  C5. The claim: \<open>emit\<close> on a name without registered listeners gives \<open>false\<close> and
  calls nothing; on a name with registered listeners it gives \<open>true\<close> and calls every
  registered callback exactly once with the arguments of \<open>emit\<close>.

  With listeners 1, 2 and 3 registered and listener 2 throwing, listener 3 is not
  called and \<open>emit\<close> does not give \<open>true\<close>: its promise is rejected.
\<close>

theorem emit_skips_listeners_behind_a_throw:
  "emit (\<lambda>index f args. if f = 2 then Throws else Fulfils)
        \<lparr>events = [(''test'', [\<lparr>isOnce = False, listener = 1\<rparr>,
                                \<lparr>isOnce = False, listener = 2\<rparr>,
                                \<lparr>isOnce = False, listener = 3\<rparr>])],
         maxListeners = 10\<rparr> (JString ''test'') [JString ''arg'']
     = (Inl (Thrown 2), [(1, [JString ''arg'']), (2, [JString ''arg''])],
        \<lparr>events = [(''test'', [\<lparr>isOnce = False, listener = 1\<rparr>,
                                \<lparr>isOnce = False, listener = 2\<rparr>,
                                \<lparr>isOnce = False, listener = 3\<rparr>])],
         maxListeners = 10\<rparr>)"
  by (simp add: emit_def ev_defs)

text \<open>
  C2. The claim: when callbacks fail during \<open>emit\<close>, every other registered callback
  is still invoked, and \<open>emit\<close> completes normally with \<open>true\<close>.

  \<^verbatim>\<open>Promise.allSettled\<close> absorbs rejected promises only. A listener that throws
  before returning throws out of \<^verbatim>\<open>map\<close>: with listeners 1 and 2 registered in this
  order and listener 1 throwing, listener 2 is never called and the promise of
  \<open>emit\<close> is rejected with what listener 1 threw.
\<close>

theorem emit_rejects_when_listener_throws:
  "emit (\<lambda>index f args. if f = 1 then Throws else Fulfils)
        \<lparr>events = [(''test'', [\<lparr>isOnce = False, listener = 1\<rparr>,
                                \<lparr>isOnce = False, listener = 2\<rparr>])],
         maxListeners = 10\<rparr> (JString ''test'') []
     = (Inl (Thrown 1), [(1, [])],
        \<lparr>events = [(''test'', [\<lparr>isOnce = False, listener = 1\<rparr>,
                                \<lparr>isOnce = False, listener = 2\<rparr>])],
         maxListeners = 10\<rparr>)"
  by (simp add: emit_def ev_defs)

text \<open>
  C1. The claim: after \<open>emit\<close> on a known event every record that was tagged one-shot
  when the emission started is gone, also when two or more of them are registered, and
  the other records keep their order.

  The code does not do this. The clean-up walks the array with \<^verbatim>\<open>forEach\<close> and
  splices it inside the callback, so the record that slides into a freed index is never
  looked at. Two \<open>once\<close> registrations on a fresh emitter followed by one \<open>emit\<close>:
  both listeners are called, the first record is removed, the second one stays
  registered (and would be called again by the next \<open>emit\<close>).
\<close>

theorem emit_keeps_second_of_two_once_records:
  "new_Emitter JUndefined = Inr \<lparr>events = [], maxListeners = 10\<rparr>
   \<and> once \<lparr>events = [], maxListeners = 10\<rparr> (JString ''test'') (JFunction 1)
       = (Inr (), \<lparr>events = [(''test'', [\<lparr>isOnce = True, listener = 1\<rparr>])], maxListeners = 10\<rparr>)
   \<and> once \<lparr>events = [(''test'', [\<lparr>isOnce = True, listener = 1\<rparr>])], maxListeners = 10\<rparr>
          (JString ''test'') (JFunction 2)
       = (Inr (), \<lparr>events = [(''test'', [\<lparr>isOnce = True, listener = 1\<rparr>,
                                            \<lparr>isOnce = True, listener = 2\<rparr>])],
                    maxListeners = 10\<rparr>)
   \<and> emit (\<lambda>index f args. Fulfils)
        \<lparr>events = [(''test'', [\<lparr>isOnce = True, listener = 1\<rparr>,
                                \<lparr>isOnce = True, listener = 2\<rparr>])],
         maxListeners = 10\<rparr> (JString ''test'') []
       = (Inr True, [(1, []), (2, [])],
          \<lparr>events = [(''test'', [\<lparr>isOnce = True, listener = 2\<rparr>])], maxListeners = 10\<rparr>)
   \<and> rawListeners \<lparr>events = [(''test'', [\<lparr>isOnce = True, listener = 2\<rparr>])], maxListeners = 10\<rparr>
        (JString ''test'')
       = (Inr [2], \<lparr>events = [(''test'', [\<lparr>isOnce = True, listener = 2\<rparr>])], maxListeners = 10\<rparr>)"
  by (simp add: new_Emitter_def set_maxListeners_def once_def addEventListener_def emit_def
      rawListeners_def removeEventListener_def ev_defs keys_defs upt_rec numeral_eq_enat)

end
